theory Spec2Isabelle
  imports Complex_Main "HOL-Library.Sublist" "HOL-Library.Log_Nat" "HOL-Library.Multiset"
begin

section \<open>The diagnostic analysis pipeline of \<^verbatim>\<open>src/server/src/diagnostics.py\<close>\<close>

text \<open>
  The theory embeds \<^verbatim>\<open>DiagnosticsService\<close> (\<^verbatim>\<open>diagnostics.py\<close>), the part of
  \<^verbatim>\<open>DatabaseService\<close> it reads (\<^verbatim>\<open>database.py\<close>) and \<^verbatim>\<open>ClaudeClient.generate\<close>
  (\<^verbatim>\<open>llm_client.py\<close>).

  \<^item> A Python \<^verbatim>\<open>str\<close> is the \<^typ>\<open>string\<close> of its UTF-8 bytes; the literals below are the
    bytes of the source file.
  \<^item> A raised exception is the \<open>Inl\<close> of a result \<open>error + 'a\<close>.
  \<^item> \<^verbatim>\<open>self.analysis_cache\<close> is passed in and returned.
  \<^item> What lies outside the repository (the Anthropic client, \<^verbatim>\<open>json.loads\<close>,
    \<^verbatim>\<open>json.dumps\<close>) is a field of the record \<open>externals\<close>.
\<close>

subsection \<open>Exceptions\<close>

datatype error =
    JSONDecodeError
  | AttributeError
  | TypeError
  | KeyError string
  | ZeroDivisionError
  | OverflowError
  | ProviderError string

subsection \<open>Strings\<close>

text \<open>\<^verbatim>\<open>str(n)\<close> of a non-negative integer.\<close>

fun digits :: "nat \<Rightarrow> string" where
  "digits n =
     (if n < 10 then [char_of (48 + n)]
      else digits (n div 10) @ [char_of (48 + n mod 10)])"

declare digits.simps [simp del]

text \<open>\<^verbatim>\<open>sep.join(lines)\<close>.\<close>

fun join :: "string \<Rightarrow> string list \<Rightarrow> string" where
  "join sep [] = []"
| "join sep [l] = l"
| "join sep (l # l' # ls) = l @ sep @ join sep (l' # ls)"

text \<open>
  \<^verbatim>\<open>s.replace(old, new)\<close>: the occurrences of \<open>old\<close> are replaced from left to right,
  without overlap. Both call sites pass a non-empty literal for \<open>old\<close>; on an empty
  \<open>old\<close> (where Python inserts \<open>new\<close> around every character) the model leaves \<open>s\<close>
  as it is.
\<close>

function replace :: "string \<Rightarrow> string \<Rightarrow> string \<Rightarrow> string" where
  "replace old new s =
     (if s = [] then []
      else if old \<noteq> [] \<and> prefix old s then new @ replace old new (drop (length old) s)
      else hd s # replace old new (tl s))"
  by pat_completeness auto
termination
  by (relation "measure (\<lambda>(old, new, s). length s)") auto

declare replace.simps [simp del]

text \<open>
  \<^verbatim>\<open>s.strip()\<close> removes the characters for which \<^verbatim>\<open>str.isspace\<close> holds from both ends.
  These are the code points 9 to 13, 28 to 32, U+0085, U+00A0, U+1680, U+2000 to U+200A,
  U+2028, U+2029, U+202F, U+205F and U+3000, here in UTF-8.
\<close>

definition whitespace :: "string list" where
  "whitespace =
     [[CHR 0x09], [CHR 0x0A], [CHR 0x0B], [CHR 0x0C], [CHR 0x0D],
      [CHR 0x1C], [CHR 0x1D], [CHR 0x1E], [CHR 0x1F], [CHR 0x20],
      [CHR 0xC2, CHR 0x85], [CHR 0xC2, CHR 0xA0], [CHR 0xE1, CHR 0x9A, CHR 0x80],
      [CHR 0xE2, CHR 0x80, CHR 0x80], [CHR 0xE2, CHR 0x80, CHR 0x81],
      [CHR 0xE2, CHR 0x80, CHR 0x82], [CHR 0xE2, CHR 0x80, CHR 0x83],
      [CHR 0xE2, CHR 0x80, CHR 0x84], [CHR 0xE2, CHR 0x80, CHR 0x85],
      [CHR 0xE2, CHR 0x80, CHR 0x86], [CHR 0xE2, CHR 0x80, CHR 0x87],
      [CHR 0xE2, CHR 0x80, CHR 0x88], [CHR 0xE2, CHR 0x80, CHR 0x89],
      [CHR 0xE2, CHR 0x80, CHR 0x8A], [CHR 0xE2, CHR 0x80, CHR 0xA8],
      [CHR 0xE2, CHR 0x80, CHR 0xA9], [CHR 0xE2, CHR 0x80, CHR 0xAF],
      [CHR 0xE2, CHR 0x81, CHR 0x9F], [CHR 0xE3, CHR 0x80, CHR 0x80]]"

text \<open>Dropping, from the front, every leading occurrence of one of the patterns.\<close>

function drop_leading :: "string list \<Rightarrow> string \<Rightarrow> string" where
  "drop_leading pats s =
     (case find (\<lambda>w. w \<noteq> [] \<and> prefix w s) pats of
        None \<Rightarrow> s
      | Some w \<Rightarrow> drop_leading pats (drop (length w) s))"
  by pat_completeness auto
termination
proof (relation "measure (\<lambda>(pats, s). length s)")
  show "wf (measure (\<lambda>(pats, s). length s))" by simp
next
  fix pats :: "string list" and s w :: string
  assume "find (\<lambda>w. w \<noteq> [] \<and> prefix w s) pats = Some w"
  then have "w \<noteq> []" and "prefix w s"
    by (auto simp: find_Some_iff)
  then have "s \<noteq> []" by auto
  with \<open>w \<noteq> []\<close> show "((pats, drop (length w) s), (pats, s)) \<in> measure (\<lambda>(pats, s). length s)"
    by simp
qed

declare drop_leading.simps [simp del]

definition lstrip :: "string \<Rightarrow> string" where
  "lstrip s = drop_leading whitespace s"

definition rstrip :: "string \<Rightarrow> string" where
  "rstrip s = rev (drop_leading (map rev whitespace) (rev s))"

definition strip :: "string \<Rightarrow> string" where
  "strip s = rstrip (lstrip s)"

subsection \<open>Floating point: \<^verbatim>\<open>(count / total_students) * 100\<close> and \<^verbatim>\<open>{pct:.1f}\<close>\<close>

text \<open>
  A finite double is the rational number it denotes. True division of two integers and
  the product of two doubles are correctly rounded (to the nearest double, ties to the
  even significand), and so is the conversion to a decimal with one fractional digit.
  The operands are counts and list lengths, so only non-negative values occur.
\<close>

definition round_half_even :: "rat \<Rightarrow> int" where
  "round_half_even x =
     (let f = \<lfloor>x\<rfloor>; r = x - of_int f
      in if r < 1 / 2 then f else if 1 / 2 < r then f + 1
         else if even f then f else f + 1)"

text \<open>\<open>\<lfloor>log\<^sub>2 q\<rfloor>\<close> of a positive rational.\<close>

definition ilog2 :: "rat \<Rightarrow> int" where
  "ilog2 q =
     (let (a, b) = quotient_of q; d = bitlen a - bitlen b
      in if 2 powi d \<le> q then d else d - 1)"

text \<open>
  The double nearest to \<open>q \<ge> 0\<close>, before the check for overflow: a significand of 53 bits,
  and a least exponent of \<open>-1074\<close> (the subnormal numbers).
\<close>

definition round_double :: "rat \<Rightarrow> rat" where
  "round_double q =
     (if q = 0 then 0
      else let e = max (ilog2 q - 52) (- 1074)
           in of_int (round_half_even (q / 2 powi e)) * 2 powi e)"

datatype pyfloat = Finite rat | Infinity

text \<open>The doubles end below \<open>2\<^sup>1\<^sup>0\<^sup>2\<^sup>4\<close>.\<close>

definition double_limit :: rat where
  "double_limit = 2 ^ 1024"

text \<open>Half of the least positive double, the greatest error of rounding near zero.\<close>

definition half_least_double :: rat where
  "half_least_double = 2 powi (- 1075)"

text \<open>\<^verbatim>\<open>a / b\<close> on integers raises where the quotient is beyond the doubles.\<close>

definition int_true_div :: "nat \<Rightarrow> nat \<Rightarrow> error + rat" where
  "int_true_div a b =
     (if b = 0 then Inl ZeroDivisionError
      else let d = round_double (of_nat a / of_nat b)
           in if double_limit \<le> d then Inl OverflowError else Inr d)"

text \<open>\<^verbatim>\<open>x * y\<close> on doubles gives \<^verbatim>\<open>inf\<close> there instead.\<close>

definition float_mul :: "rat \<Rightarrow> rat \<Rightarrow> pyfloat" where
  "float_mul x y =
     (let d = round_double (x * y) in if double_limit \<le> d then Infinity else Finite d)"

text \<open>\<^verbatim>\<open>f"{pct:.1f}"\<close>.\<close>

definition format_1f :: "pyfloat \<Rightarrow> string" where
  "format_1f x =
     (case x of
        Infinity \<Rightarrow> ''inf''
      | Finite v \<Rightarrow>
          (let t = round_half_even (v * 10)
           in digits (nat (t div 10)) @ ''.'' @ digits (nat (t mod 10))))"

subsection \<open>Results\<close>

definition and_then :: "error + 'a \<Rightarrow> ('a \<Rightarrow> error + 'b) \<Rightarrow> error + 'b" where
  "and_then m f = (case m of Inl e \<Rightarrow> Inl e | Inr v \<Rightarrow> f v)"

text \<open>A loop that appends \<open>f x\<close> for every \<open>x\<close> and stops at the first exception.\<close>

fun map_result :: "('a \<Rightarrow> error + 'b) \<Rightarrow> 'a list \<Rightarrow> error + 'b list" where
  "map_result f [] = Inr []"
| "map_result f (x # xs) =
     and_then (f x) (\<lambda>y. and_then (map_result f xs) (\<lambda>ys. Inr (y # ys)))"

subsection \<open>Data model\<close>

text \<open>
  \<^verbatim>\<open>json.loads\<close> returns whatever value the text denotes, of any shape. The values
  that are neither list nor dict are the hashable ones. Of a float only equality and
  \<^verbatim>\<open>str\<close> are ever used, so it is the number it denotes together with its \<^verbatim>\<open>str\<close>.
\<close>

datatype float_value = FNum rat | FPosInf | FNegInf | FNaN

datatype atom =
    PyNone
  | PyBool bool
  | PyInt int
  | PyFloat float_value string
  | PyStr string

datatype json =
    Atom atom
  | JArray "json list"
  | JObject "(string \<times> json) list"

abbreviation JString :: "string \<Rightarrow> json" where
  "JString s \<equiv> Atom (PyStr s)"

text \<open>
  Keys of a dict are compared by value: \<^verbatim>\<open>True\<close>, \<^verbatim>\<open>1\<close> and \<^verbatim>\<open>1.0\<close> are one key, and
  so are the \<^verbatim>\<open>NaN\<close>s of \<^verbatim>\<open>json.loads\<close> (one object).
\<close>

datatype dict_key = KNone | KNumber float_value | KStr string

fun key_value :: "atom \<Rightarrow> dict_key" where
  "key_value PyNone = KNone"
| "key_value (PyBool b) = KNumber (FNum (if b then 1 else 0))"
| "key_value (PyInt i) = KNumber (FNum (of_int i))"
| "key_value (PyFloat v s) = KNumber v"
| "key_value (PyStr s) = KStr s"

text \<open>Hashing, as the key of a dict: a list or a dict is unhashable.\<close>

fun hashable :: "json \<Rightarrow> error + atom" where
  "hashable (Atom a) = Inr a"
| "hashable (JArray xs) = Inl TypeError"
| "hashable (JObject kvs) = Inl TypeError"

text \<open>\<^verbatim>\<open>str(x)\<close>, as \<^verbatim>\<open>f"{x}"\<close> inserts it.\<close>

fun py_str :: "atom \<Rightarrow> string" where
  "py_str PyNone = ''None''"
| "py_str (PyBool b) = (if b then ''True'' else ''False'')"
| "py_str (PyInt i) = (if i < 0 then ''-'' @ digits (nat (- i)) else digits (nat i))"
| "py_str (PyFloat v s) = s"
| "py_str (PyStr s) = s"

text \<open>\<^verbatim>\<open>x.get(key, default)\<close>: only a dict has the method.\<close>

fun py_get :: "json \<Rightarrow> string \<Rightarrow> json \<Rightarrow> error + json" where
  "py_get (JObject kvs) k dflt =
     Inr (case map_of kvs k of None \<Rightarrow> dflt | Some v \<Rightarrow> v)"
| "py_get (JArray xs) k dflt = Inl AttributeError"
| "py_get (Atom a) k dflt = Inl AttributeError"

text \<open>\<^verbatim>\<open>x[key]\<close> with a string for \<open>key\<close>.\<close>

fun subscript :: "json \<Rightarrow> string \<Rightarrow> error + json" where
  "subscript (JObject kvs) k =
     (case map_of kvs k of None \<Rightarrow> Inl (KeyError k) | Some v \<Rightarrow> Inr v)"
| "subscript (JArray xs) k = Inl TypeError"
| "subscript (Atom a) k = Inl TypeError"

text \<open>
  The values that \<^verbatim>\<open>for item in x\<close> runs through: the elements of a list, the keys of
  a dict, the characters of a string.
\<close>

definition continuation_byte :: "char \<Rightarrow> bool" where
  "continuation_byte c \<longleftrightarrow> (128 :: nat) \<le> of_char c \<and> of_char c < (192 :: nat)"

function code_points :: "string \<Rightarrow> string list" where
  "code_points [] = []"
| "code_points (c # cs) =
     (c # takeWhile continuation_byte cs) # code_points (dropWhile continuation_byte cs)"
  by pat_completeness auto
termination
  by (relation "measure length") (simp_all add: length_dropWhile_le less_Suc_eq_le)

fun iterate :: "json \<Rightarrow> error + json list" where
  "iterate (JArray xs) = Inr xs"
| "iterate (JObject kvs) = Inr (map (\<lambda>(k, v). JString k) kvs)"
| "iterate (Atom (PyStr s)) = Inr (map JString (code_points s))"
| "iterate (Atom a) = Inl TypeError"

text \<open>\<^verbatim>\<open>for item in analysis.get(key, [])\<close>.\<close>

definition items_of :: "json \<Rightarrow> string \<Rightarrow> error + json list" where
  "items_of analysis k = and_then (py_get analysis k (JArray [])) iterate"

text \<open>An entry \<^verbatim>\<open>{'category': c, 'type': t}\<close> of the canonical categories.\<close>

type_synonym canonical = "json \<times> string"

text \<open>The entry of \<^verbatim>\<open>self.analysis_cache\<close> for one assignment.\<close>

record report =
  assignment_id :: string
  student_analyses :: "json list"
  statistics :: string
  canonical_categories :: "canonical list"
  exam_content :: string

type_synonym cache = "string \<rightharpoonup> report"

text \<open>
  What \<^verbatim>\<open>analyze_assignment\<close> returns: \<^verbatim>\<open>{'assignment_id', 'error'}\<close>, or
  \<^verbatim>\<open>{'assignment_id', 'total_students', 'overview', 'statistics', 'student_analyses'}\<close>.
\<close>

datatype payload =
    ErrorPayload string string
  | AnalysisPayload string nat string string "json list"

subsection \<open>Outside the repository\<close>

text \<open>The keyword arguments of \<^verbatim>\<open>client.messages.create\<close>; a message is (role, content).\<close>

record message_params =
  model :: string
  max_tokens :: nat
  messages :: "(string \<times> string) list"
  system :: "string option"

text \<open>The values that the service passes to \<^verbatim>\<open>json.dumps(_, indent=2)\<close>.\<close>

datatype pyobj =
    Names "json list"
  | Analyses "json list"
  | Text string
  | Report report

text \<open>
  \<open>messages_create\<close> is \<^verbatim>\<open>client.messages.create(**params).content[0].text\<close>, or the
  exception it raises; \<open>json_loads\<close> is \<open>None\<close> where \<^verbatim>\<open>json.loads\<close> raises its decode error.
\<close>

record externals =
  messages_create :: "message_params \<Rightarrow> error + string"
  json_loads :: "string \<Rightarrow> json option"
  json_dumps :: "pyobj \<Rightarrow> string"

subsection \<open>\<^verbatim>\<open>ClaudeClient.generate\<close>\<close>

definition generate :: "externals \<Rightarrow> string \<Rightarrow> string \<Rightarrow> nat \<Rightarrow> error + string" where
  "generate ext prompt system_prompt max_tokens' =
     messages_create ext
       \<lparr>model = ''claude-sonnet-4-20250514'',
        max_tokens = max_tokens',
        messages = [(''user'', prompt)],
        system = (if system_prompt \<noteq> [] then Some system_prompt else None)\<rparr>"

subsection \<open>\<^verbatim>\<open>DatabaseService\<close>\<close>

text \<open>
  The files under \<^verbatim>\<open>chat_histories/<assignment>/\<close>, in the order of the directory
  listing (\<open>None\<close>: the directory does not exist), and \<^verbatim>\<open>metadata.json\<close>.
\<close>

record chat_message =
  role :: string
  content :: string

record chat_data =
  conversation :: "chat_message list"

record database =
  chat_histories :: "string \<Rightarrow> chat_data list option"
  metadata :: "string \<rightharpoonup> (string \<rightharpoonup> string)"

definition load_all_chat_histories :: "database \<Rightarrow> string \<Rightarrow> chat_data list" where
  "load_all_chat_histories db aid =
     (case chat_histories db aid of None \<Rightarrow> [] | Some histories \<Rightarrow> histories)"

definition get_conversations_for_diagnostics ::
  "database \<Rightarrow> string \<Rightarrow> string list list \<times> string" where
  "get_conversations_for_diagnostics db aid =
     (let histories = load_all_chat_histories db aid;
          conversations = map (\<lambda>history. map content (conversation history)) histories;
          meta = (case metadata db aid of None \<Rightarrow> Map.empty | Some m \<Rightarrow> m);
          exam = (case meta ''exam_content'' of None \<Rightarrow> [] | Some v \<Rightarrow> v)
      in (conversations, exam))"

subsection \<open>\<^verbatim>\<open>DiagnosticsService\<close>: the calls of the language model\<close>

fun format_conversation_from :: "nat \<Rightarrow> string list \<Rightarrow> string" where
  "format_conversation_from i [] = []"
| "format_conversation_from i (msg # msgs) =
     (if i mod 2 = 0 then ''Student'' else ''Assistant'') @ '': '' @ msg @ ''\<newline>''
       @ format_conversation_from (Suc i) msgs"

definition format_conversation :: "string list \<Rightarrow> string" where
  "format_conversation msgs = format_conversation_from 0 msgs"

text \<open>
  \<^verbatim>\<open>response.replace('```json', '').replace('```', '').strip()\<close>, then \<^verbatim>\<open>json.loads\<close>.
\<close>

definition clean_response :: "string \<Rightarrow> string" where
  "clean_response response = strip (replace ''```'' [] (replace ''```json'' [] response))"

definition parse_response :: "externals \<Rightarrow> string \<Rightarrow> error + json" where
  "parse_response ext response =
     (case json_loads ext (clean_response response) of
        None \<Rightarrow> Inl JSONDecodeError
      | Some a \<Rightarrow> Inr a)"

definition first_student_system :: string where
  \<open>first_student_system =
     ''You are an expert educational diagnostician. Analyze a student\'s chat conversation to identify:\<newline>''
     @ ''1. Topics/concepts the student UNDERSTOOD well\<newline>''
     @ ''2. Topics/concepts the student STRUGGLED with\<newline>''
     @ ''3. Topics/concepts the student ASKED ABOUT\<newline>\<newline>''
     @ ''Create SPECIFIC, CANONICAL labels that can be reused for other students.''\<close>

definition first_student_prompt :: "string \<Rightarrow> string \<Rightarrow> string" where
  \<open>first_student_prompt exam conv_text =
     ''Exam Content:\<newline>'' @ exam
     @ ''\<newline>\<newline>Student Conversation:\<newline>'' @ conv_text
     @ ''\<newline>\<newline>Analyze and output a JSON object:\<newline>{\<newline>''
     @ ''  "student_id": "student_1",\<newline>''
     @ ''  "understood_well": [\<newline>''
     @ ''    {"category": "specific topic", "evidence": "quote or summary"}\<newline>''
     @ ''  ],\<newline>''
     @ ''  "struggled_with": [\<newline>''
     @ ''    {"category": "specific topic", "evidence": "quote", "severity": "low|medium|high"}\<newline>''
     @ ''  ],\<newline>''
     @ ''  "asked_about": [\<newline>''
     @ ''    {"category": "specific topic", "resolution": "resolved|unresolved"}\<newline>''
     @ ''  ],\<newline>''
     @ ''  "total_questions": number,\<newline>''
     @ ''  "engagement_level": "low|medium|high"\<newline>''
     @ ''}\<newline>\<newline>Output ONLY valid JSON.''\<close>

definition analyze_first_student :: "externals \<Rightarrow> string list \<Rightarrow> string \<Rightarrow> error + json" where
  "analyze_first_student ext conv exam =
     and_then
       (generate ext (first_student_prompt exam (format_conversation conv))
          first_student_system 4096)
       (parse_response ext)"

definition student_system :: "externals \<Rightarrow> canonical list \<Rightarrow> string" where
  \<open>student_system ext canonical_categories' =
     ''You are an expert educational diagnostician. Map this student\'s understanding to EXISTING CANONICAL CATEGORIES.''
     @ ''\<newline>\<newline>CANONICAL CATEGORIES:\<newline>''
     @ json_dumps ext (Names (map fst canonical_categories'))
     @ ''\<newline>\<newline>Use EXACT category names when applicable. Only create NEW categories if genuinely different.''\<close>

definition student_prompt :: "string \<Rightarrow> string \<Rightarrow> nat \<Rightarrow> string" where
  \<open>student_prompt exam conv_text student_num =
     ''Exam Content:\<newline>'' @ exam
     @ ''\<newline>\<newline>Student Conversation:\<newline>'' @ conv_text
     @ ''\<newline>\<newline>Analyze and output a JSON object (same format as before) for student_''
     @ digits student_num
     @ ''.\<newline>Use canonical categories where applicable. Output ONLY valid JSON.''\<close>

definition analyze_student ::
  "externals \<Rightarrow> string list \<Rightarrow> string \<Rightarrow> canonical list \<Rightarrow> nat \<Rightarrow> error + json" where
  "analyze_student ext conv exam canonical_categories' student_num =
     and_then
       (generate ext (student_prompt exam (format_conversation conv) student_num)
          (student_system ext canonical_categories') 4096)
       (parse_response ext)"

text \<open>The loop over \<^verbatim>\<open>enumerate(conversations[1:], start=2)\<close>.\<close>

fun analyze_students ::
  "externals \<Rightarrow> string \<Rightarrow> canonical list \<Rightarrow> nat \<Rightarrow> string list list \<Rightarrow> error + json list" where
  "analyze_students ext exam cats i [] = Inr []"
| "analyze_students ext exam cats i (conv # convs) =
     and_then (analyze_student ext conv exam cats i) (\<lambda>a.
     and_then (analyze_students ext exam cats (Suc i) convs) (\<lambda>as.
     Inr (a # as)))"

definition create_overview :: "externals \<Rightarrow> json list \<Rightarrow> string \<Rightarrow> error + string" where
  \<open>create_overview ext analyses stats =
     generate ext
       (''Student Analyses:\<newline>'' @ json_dumps ext (Analyses analyses)
        @ ''\<newline>\<newline>Statistics:\<newline>'' @ json_dumps ext (Text stats)
        @ ''\<newline>\<newline>Create a brief overview report highlighting:\<newline>''
        @ ''1. Overall performance patterns\<newline>''
        @ ''2. Common struggles\<newline>''
        @ ''3. Well-understood concepts\<newline>''
        @ ''4. Recommendations for the professor\<newline>\<newline>''
        @ ''Keep it concise and actionable.'')
       ''You are an educational analyst. Create a concise overview report for the professor.''
       4096\<close>

subsection \<open>\<^verbatim>\<open>_extract_categories\<close>\<close>

definition extract_categories :: "json \<Rightarrow> error + canonical list" where
  "extract_categories first_analysis =
     and_then (items_of first_analysis ''understood_well'') (\<lambda>understood.
     and_then
       (map_result (\<lambda>item. and_then (subscript item ''category'')
          (\<lambda>c. Inr (c, ''understood''))) understood)
       (\<lambda>us.
     and_then (items_of first_analysis ''struggled_with'') (\<lambda>struggled.
     and_then
       (map_result (\<lambda>item. and_then (subscript item ''category'')
          (\<lambda>c. Inr (c, ''struggled''))) struggled)
       (\<lambda>ss.
     Inr (us @ ss)))))"

subsection \<open>\<^verbatim>\<open>_generate_statistics\<close>\<close>

text \<open>
  A dict from category to count keeps its keys in the order of their first insertion:
  an association list. \<open>increment\<close> is
  \<^verbatim>\<open>counts[category] = counts.get(category, 0) + 1\<close>; the key that is kept is the
  one inserted first.
\<close>

type_synonym counts = "(atom \<times> nat) list"

fun bump :: "counts \<Rightarrow> atom \<Rightarrow> counts" where
  "bump [] k = [(k, 0 + 1)]"
| "bump ((k', c) # kvs) k =
     (if key_value k' = key_value k then (k', c + 1) # kvs else (k', c) # bump kvs k)"

definition increment :: "counts \<Rightarrow> json \<Rightarrow> error + counts" where
  "increment cs category = and_then (hashable category) (\<lambda>k. Inr (bump cs k))"

fun count_items :: "counts \<Rightarrow> json list \<Rightarrow> error + counts" where
  "count_items cs [] = Inr cs"
| "count_items cs (item # items) =
     and_then (subscript item ''category'') (\<lambda>category.
     and_then (increment cs category) (\<lambda>cs'.
     count_items cs' items))"

fun count_categories :: "string \<Rightarrow> counts \<Rightarrow> json list \<Rightarrow> error + counts" where
  "count_categories field cs [] = Inr cs"
| "count_categories field cs (a # as) =
     and_then (items_of a field) (\<lambda>items.
     and_then (count_items cs items) (\<lambda>cs'.
     count_categories field cs' as))"

text \<open>\<^verbatim>\<open>sorted(counts.items(), key=lambda x: x[1], reverse=True)[:5]\<close>: a stable sort.\<close>

definition top5 :: "counts \<Rightarrow> counts" where
  "top5 cs = take 5 (rev (sort_key snd (rev cs)))"

definition bullet :: "nat \<Rightarrow> atom \<times> nat \<Rightarrow> error + string" where
  "bullet total_students = (\<lambda>(topic, count).
     and_then (int_true_div count total_students) (\<lambda>q.
     Inr (''- **'' @ py_str topic @ ''**: '' @ digits count @ '' students (''
          @ format_1f (float_mul q 100) @ ''%)'')))"

definition section_lines :: "string \<Rightarrow> nat \<Rightarrow> counts \<Rightarrow> error + string list" where
  "section_lines placeholder total_students sorted_counts =
     (if sorted_counts = [] then Inr [placeholder]
      else map_result (bullet total_students) sorted_counts)"

definition statistics_title :: "nat \<Rightarrow> string" where
  "statistics_title total_students =
     ''### '' @ [CHR 0xC3, CHR 0xB0, CHR 0xC5, CHR 0xB8, CHR 0xE2, CHR 0x80, CHR 0x9C, CHR 0xC5, CHR 0xA0]
     @ '' Class Statistics (N='' @ digits total_students @ '')''"

definition struggles_header :: string where
  "struggles_header =
     ''#### '' @ [CHR 0xC3, CHR 0xA2, CHR 0xC5, CHR 0xA1, CHR 0xC2, CHR 0xA0, CHR 0xC3, CHR 0xAF, CHR 0xC2, CHR 0xB8]
     @ '' Top Struggles''"

definition understood_header :: string where
  "understood_header =
     ''#### '' @ [CHR 0xC3, CHR 0xA2, CHR 0xC5, CHR 0x93, CHR 0xE2, CHR 0x80, CHR 0xA6]
     @ '' Well Understood''"

definition generate_statistics :: "json list \<Rightarrow> error + string" where
  "generate_statistics analyses =
     (let total_students = length analyses in
      if total_students = 0 then Inr ''No student data available for statistics.''
      else
        and_then (count_categories ''struggled_with'' [] analyses) (\<lambda>struggle_counts.
        and_then (count_categories ''understood_well'' [] analyses) (\<lambda>understood_counts.
        and_then (section_lines ''_No significant struggles detected._'' total_students
                    (top5 struggle_counts)) (\<lambda>struggle_lines.
        and_then (section_lines ''_No clear patterns of understanding detected._'' total_students
                    (top5 understood_counts)) (\<lambda>understood_lines.
        Inr (join ''\<newline>''
               ([statistics_title total_students, [], struggles_header] @ struggle_lines
                @ [[], understood_header] @ understood_lines)))))))"

subsection \<open>\<^verbatim>\<open>analyze_assignment\<close> and \<^verbatim>\<open>query\<close>\<close>

text \<open>
  Both return their result, or the exception that leaves them, and the cache as it is
  afterwards.
\<close>

definition analyze_assignment ::
  "externals \<Rightarrow> database \<Rightarrow> cache \<Rightarrow> string \<Rightarrow> (error + payload) \<times> cache" where
  "analyze_assignment ext db analysis_cache aid =
     (let (conversations, exam) = get_conversations_for_diagnostics db aid in
      if conversations = [] then (Inr (ErrorPayload aid ''No chat histories found''), analysis_cache)
      else
        case
          and_then (analyze_first_student ext (hd conversations) exam) (\<lambda>first_analysis.
          and_then (extract_categories first_analysis) (\<lambda>cats.
          and_then (analyze_students ext exam cats 2 (tl conversations)) (\<lambda>rest.
          and_then (generate_statistics (first_analysis # rest)) (\<lambda>stats.
          and_then (create_overview ext (first_analysis # rest) stats) (\<lambda>overview.
          Inr (cats, first_analysis # rest, stats, overview))))))
        of
          Inl e \<Rightarrow> (Inl e, analysis_cache)
        | Inr (cats, analyses, stats, overview) \<Rightarrow>
            (Inr (AnalysisPayload aid (length conversations) overview stats analyses),
             analysis_cache(aid \<mapsto>
               \<lparr>assignment_id = aid, student_analyses = analyses, statistics = stats,
                canonical_categories = cats, exam_content = exam\<rparr>)))"

definition query_system :: string where
  \<open>query_system =
     ''You are an educational data analyst. Answer the professor\'s question based on the student performance data provided.''\<close>

definition query_prompt :: "externals \<Rightarrow> report \<Rightarrow> string \<Rightarrow> string" where
  \<open>query_prompt ext analysis_data question =
     ''Analysis Data:\<newline>'' @ json_dumps ext (Report analysis_data)
     @ ''\<newline>\<newline>Professor\'s Question: '' @ question
     @ ''\<newline>\<newline>Provide a clear, data-driven answer to the professor\'s question.''\<close>

definition query :: "externals \<Rightarrow> cache \<Rightarrow> string \<Rightarrow> string \<Rightarrow> (error + string) \<times> cache" where
  "query ext analysis_cache aid question =
     (case analysis_cache aid of
        None \<Rightarrow> (Inr ''Please run analysis first before querying.'', analysis_cache)
      | Some analysis_data \<Rightarrow>
          (generate ext (query_prompt ext analysis_data question) query_system 2048,
           analysis_cache))"

subsection \<open>Example values\<close>

text \<open>
  A language model that answers every request with the same text, and a decoder that
  knows three texts.
\<close>

definition constant_externals :: "string \<Rightarrow> externals" where
  \<open>constant_externals answer =
     \<lparr>messages_create = (\<lambda>params. Inr answer),
      json_loads = (\<lambda>text.
        if text = ''{}'' then Some (JObject [])
        else if text = ''[]'' then Some (JArray [])
        else if text = ''{"struggled_with": [{"category": "loops"}]}''
          then Some (JObject [(''struggled_with'', JArray [JObject [(''category'', JString ''loops'')]])])
        else None),
      json_dumps = (\<lambda>obj. [])\<rparr>\<close>

text \<open>An analysis without any key, and one listing the given categories.\<close>

definition empty_analysis :: json where
  "empty_analysis = JObject []"

definition analysis_of :: "string list \<Rightarrow> string list \<Rightarrow> json" where
  "analysis_of understood struggled =
     JObject
       [(''student_id'', JString ''student_1''),
        (''understood_well'', JArray (map (\<lambda>c. JObject [(''category'', JString c),
           (''evidence'', JString ''said so'')]) understood)),
        (''struggled_with'', JArray (map (\<lambda>c. JObject [(''category'', JString c),
           (''evidence'', JString ''asked twice''), (''severity'', JString ''low'')]) struggled))]"

text \<open>A store without any history, and one with the history of one student.\<close>

definition empty_database :: database where
  "empty_database = \<lparr>chat_histories = (\<lambda>aid. None), metadata = Map.empty\<rparr>"

definition one_student_database :: database where
  "one_student_database =
     \<lparr>chat_histories = (\<lambda>aid. if aid = ''algorithms_quiz''
        then Some [\<lparr>conversation = [\<lparr>role = ''student'', content = ''What is a loop?''\<rparr>,
                                     \<lparr>role = ''assistant'', content = ''It repeats.''\<rparr>]\<rparr>]
        else None),
      metadata = Map.empty\<rparr>"

text \<open>One analysis that lists \<open>c1\<close> once, \<open>c2\<close> twice, and so on up to \<open>c8\<close>.\<close>

definition eight_categories :: json where
  "eight_categories =
     analysis_of []
       (replicate 1 ''c1'' @ replicate 2 ''c2'' @ replicate 3 ''c3'' @ replicate 4 ''c4''
        @ replicate 5 ''c5'' @ replicate 6 ''c6'' @ replicate 7 ''c7'' @ replicate 8 ''c8'')"

text \<open>The blanks that surround a code fence: space, line feed, carriage return, tab.\<close>

definition blank :: "char set" where
  "blank = {CHR '' '', CHR ''\<newline>'', CHR 0x0D, CHR 0x09}"

section \<open>Properties\<close>

subsection \<open>Evaluation\<close>

lemma double_limit_code [code]: "double_limit = (2 ^ 32) ^ 32"
  unfolding double_limit_def by (simp flip: power_mult)

subsection \<open>Results\<close>

lemma and_then_simps [simp]:
  "and_then (Inl e) f = Inl e" "and_then (Inr v) f = f v"
  by (simp_all add: and_then_def)

lemma and_then_Inr_iff:
  "and_then m f = Inr y \<longleftrightarrow> (\<exists>v. m = Inr v \<and> f v = Inr y)"
  by (cases m) simp_all

subsection \<open>\<^verbatim>\<open>query\<close>\<close>

text \<open>
  C10. \<^verbatim>\<open>query\<close> never modifies the report cache: whatever the assignment id and the
  question, cached or not, and whether the language model answers or fails, the cache
  after the call is the cache before it.
\<close>

theorem query_preserves_cache:
  "snd (query ext analysis_cache aid question) = analysis_cache"
  by (simp add: query_def split: option.split)

text \<open>
  C1, as stated: on an assignment that was never analysed, \<^verbatim>\<open>query\<close> fails. It does not:
  on the empty cache the call returns normally, and its value is the instruction.
\<close>

theorem query_unanalyzed_returns_normally:
  "\<not> isl (fst (query (constant_externals ''ok'') Map.empty ''fresh_assignment'' ''any question''))
   \<and> fst (query (constant_externals ''ok'') Map.empty ''fresh_assignment'' ''any question'')
       = Inr ''Please run analysis first before querying.''"
  by (simp add: query_def)

text \<open>
  C1, amended: for every assignment id without an entry in the cache and every question,
  \<^verbatim>\<open>query\<close> returns the text \<^verbatim>\<open>Please run analysis first before querying.\<close> as its
  value, whatever the language model would answer, and leaves the cache as it is.
\<close>

theorem query_unanalyzed_message:
  assumes "analysis_cache aid = None"
  shows "query ext analysis_cache aid question
           = (Inr ''Please run analysis first before querying.'', analysis_cache)"
  using assms by (simp add: query_def)

theorem query_unanalyzed_message_witness:
  "(Map.empty :: cache) ''fresh_assignment'' = None
   \<and> query (constant_externals ''ok'') Map.empty ''fresh_assignment'' ''any question''
       = (Inr ''Please run analysis first before querying.'', Map.empty)"
  using query_unanalyzed_message [of Map.empty "''fresh_assignment''" "constant_externals ''ok''" "''any question''"]
  by simp

subsection \<open>\<^verbatim>\<open>analyze_assignment\<close>: nothing to analyse, and a malformed answer\<close>

text \<open>
  C4. For every assignment id for which the store holds no history (the directory is
  missing or empty), \<^verbatim>\<open>analyze_assignment\<close> returns the payload with the assignment id
  and the error text; it does not raise and the cache stays as it is.
\<close>

theorem analyze_empty_corpus:
  assumes "load_all_chat_histories db aid = []"
  shows "analyze_assignment ext db analysis_cache aid
           = (Inr (ErrorPayload aid ''No chat histories found''), analysis_cache)"
  using assms by (simp add: analyze_assignment_def get_conversations_for_diagnostics_def)

theorem analyze_empty_corpus_witness:
  "load_all_chat_histories empty_database ''no_such_assignment'' = []
   \<and> analyze_assignment (constant_externals ''ok'') empty_database Map.empty ''no_such_assignment''
       = (Inr (ErrorPayload ''no_such_assignment'' ''No chat histories found''), Map.empty)"
proof -
  have h: "load_all_chat_histories empty_database ''no_such_assignment'' = []"
    by (simp add: load_all_chat_histories_def empty_database_def)
  from analyze_empty_corpus [OF h] h show ?thesis by simp
qed

text \<open>Whatever exception leaves \<^verbatim>\<open>analyze_assignment\<close>, the cache is as before.\<close>

lemma analyze_failure_keeps_cache:
  "fst (analyze_assignment ext db analysis_cache aid) = Inl e
   \<Longrightarrow> snd (analyze_assignment ext db analysis_cache aid) = analysis_cache"
  by (auto simp: analyze_assignment_def Let_def split: prod.splits sum.splits if_splits)

lemma one_student_conversations:
  "get_conversations_for_diagnostics one_student_database ''algorithms_quiz''
     = ([''What is a loop?'', ''It repeats.''] # [], [])"
  by (simp add: get_conversations_for_diagnostics_def load_all_chat_histories_def
      one_student_database_def)

lemma constant_generate: "generate (constant_externals answer) prompt sys n = Inr answer"
  by (simp add: generate_def constant_externals_def)

lemma clean_response_examples:
  "clean_response ''I cannot answer'' = ''I cannot answer''"
  "clean_response ''{}'' = ''{}''"
  "clean_response ''[]'' = ''[]''"
  by code_simp+

lemma statistics_empty_object:
  "generate_statistics [JObject []] = Inr (join ''\<newline>''
     [statistics_title 1, [], struggles_header, ''_No significant struggles detected._'',
      [], understood_header, ''_No clear patterns of understanding detected._''])"
  by (simp add: generate_statistics_def items_of_def top5_def section_lines_def)

text \<open>
  C2, as stated: whenever the answer for the first student does not decode into the
  expected record, the analysis fails and nothing is cached. It does not fail on the
  answer \<^verbatim>\<open>{}\<close>, which is valid JSON with none of the expected keys: no check of the shape
  exists, the run returns normally and its report, with this analysis, is cached.
\<close>

theorem analyze_nonconforming_cached:
  "\<not> isl (fst (analyze_assignment (constant_externals ''{}'') one_student_database Map.empty
        ''algorithms_quiz''))
   \<and> map_option student_analyses
        (snd (analyze_assignment (constant_externals ''{}'') one_student_database Map.empty
           ''algorithms_quiz'') ''algorithms_quiz'') = Some [JObject []]"
proof -
  have p: "parse_response (constant_externals ''{}'') ''{}'' = Inr (JObject [])"
    by (simp add: parse_response_def clean_response_examples constant_externals_def)
  have x: "extract_categories (JObject []) = Inr []"
    by (simp add: extract_categories_def items_of_def)
  show ?thesis
    by (simp add: analyze_assignment_def one_student_conversations analyze_first_student_def
        constant_generate p x statistics_empty_object create_overview_def)
qed

text \<open>
  An answer of another shape fails where the code first uses it, not in the decoder: on
  \<^verbatim>\<open>[]\<close> the call of \<^verbatim>\<open>.get\<close> in \<^verbatim>\<open>_extract_categories\<close> raises \<^verbatim>\<open>AttributeError\<close>.
\<close>

lemma analyze_list_answer:
  "analyze_assignment (constant_externals ''[]'') one_student_database Map.empty ''algorithms_quiz''
     = (Inl AttributeError, Map.empty)"
proof -
  have p: "parse_response (constant_externals ''[]'') ''[]'' = Inr (JArray [])"
    by (simp add: parse_response_def clean_response_examples constant_externals_def)
  have x: "extract_categories (JArray []) = Inl AttributeError"
    by (simp add: extract_categories_def items_of_def)
  show ?thesis
    by (simp add: analyze_assignment_def one_student_conversations analyze_first_student_def
        constant_generate p x)
qed

text \<open>
  C2, amended. Whenever the answer of the language model for the first student, once
  cleaned, is text that \<^verbatim>\<open>json.loads\<close> does not decode, \<^verbatim>\<open>analyze_assignment\<close> fails with
  the decode error (the exception that the specification calls \<^verbatim>\<open>MalformedAnalysisError\<close>)
  and the cache afterwards is the cache before the call. And whatever the exception with
  which \<^verbatim>\<open>analyze_assignment\<close> fails (the decode error, or the \<^verbatim>\<open>AttributeError\<close>,
  \<^verbatim>\<open>TypeError\<close> or \<^verbatim>\<open>KeyError\<close> that decoded JSON of another shape meets later), the cache
  afterwards is the cache before the call: no partial report is cached.
\<close>

theorem analyze_malformed_first:
  assumes "get_conversations_for_diagnostics db aid = (conv # convs, exam)"
    and "generate ext (first_student_prompt exam (format_conversation conv)) first_student_system 4096
           = Inr response"
  shows "(json_loads ext (clean_response response) = None
          \<longrightarrow> analyze_assignment ext db analysis_cache aid = (Inl JSONDecodeError, analysis_cache))
     \<and> (\<forall>e. fst (analyze_assignment ext db analysis_cache aid) = Inl e
          \<longrightarrow> snd (analyze_assignment ext db analysis_cache aid) = analysis_cache)"
proof (intro conjI impI allI)
  assume "json_loads ext (clean_response response) = None"
  with assms show "analyze_assignment ext db analysis_cache aid = (Inl JSONDecodeError, analysis_cache)"
    by (simp add: analyze_assignment_def analyze_first_student_def parse_response_def)
next
  fix e
  assume "fst (analyze_assignment ext db analysis_cache aid) = Inl e"
  then show "snd (analyze_assignment ext db analysis_cache aid) = analysis_cache"
    by (rule analyze_failure_keeps_cache)
qed

theorem analyze_malformed_first_witness:
  "get_conversations_for_diagnostics one_student_database ''algorithms_quiz''
     = ([''What is a loop?'', ''It repeats.''] # [], [])
   \<and> generate (constant_externals ''I cannot answer'')
        (first_student_prompt [] (format_conversation [''What is a loop?'', ''It repeats.'']))
        first_student_system 4096 = Inr ''I cannot answer''
   \<and> json_loads (constant_externals ''I cannot answer'') (clean_response ''I cannot answer'') = None
   \<and> analyze_assignment (constant_externals ''I cannot answer'') one_student_database Map.empty
        ''algorithms_quiz'' = (Inl JSONDecodeError, Map.empty)
   \<and> fst (analyze_assignment (constant_externals ''I cannot answer'') one_student_database Map.empty
        ''algorithms_quiz'') = Inl JSONDecodeError
   \<and> snd (analyze_assignment (constant_externals ''I cannot answer'') one_student_database Map.empty
        ''algorithms_quiz'') = Map.empty"
proof -
  note h1 = one_student_conversations
  have h2: "generate (constant_externals ''I cannot answer'')
        (first_student_prompt [] (format_conversation [''What is a loop?'', ''It repeats.'']))
        first_student_system 4096 = Inr ''I cannot answer''"
    by (rule constant_generate)
  have h3: "json_loads (constant_externals ''I cannot answer'') (clean_response ''I cannot answer'')
     = None"
    by (simp add: clean_response_examples constant_externals_def)
  from analyze_malformed_first [OF h1 h2, of Map.empty] h1 h2 h3 show ?thesis by simp
qed

subsection \<open>\<^verbatim>\<open>_extract_categories\<close>\<close>

lemma map_result_tagged:
  "map (\<lambda>item. subscript item k) items = map Inr cs
   \<Longrightarrow> map_result (\<lambda>item. and_then (subscript item k) (\<lambda>c. Inr (c, t))) items
         = Inr (map (\<lambda>c. (c, t)) cs)"
proof (induction items arbitrary: cs)
  case Nil
  then show ?case by simp
next
  case (Cons item items)
  then obtain c cs' where cs: "cs = c # cs'" by (cases cs) auto
  with Cons.prems have "subscript item k = Inr c" "map (\<lambda>item. subscript item k) items = map Inr cs'"
    by simp_all
  with Cons.IH [of cs'] cs show ?case by simp
qed

text \<open>
  C5. Let \<open>us\<close> be the categories of the entries of \<^verbatim>\<open>understood_well\<close> of the first
  analysis, in their order, and \<open>ss\<close> those of \<^verbatim>\<open>struggled_with\<close>. Then the canonical
  categories are exactly \<open>us\<close>, each tagged \<^verbatim>\<open>understood\<close>, followed by \<open>ss\<close>, each tagged
  \<^verbatim>\<open>struggled\<close>: the order is kept and a category that occurs twice is listed twice.
  The function has no access to the language model (it takes no \<open>externals\<close>).
\<close>

theorem extract_categories_exact:
  assumes "items_of a ''understood_well'' = Inr understood"
    and "map (\<lambda>item. subscript item ''category'') understood = map Inr us"
    and "items_of a ''struggled_with'' = Inr struggled"
    and "map (\<lambda>item. subscript item ''category'') struggled = map Inr ss"
  shows "extract_categories a
           = Inr (map (\<lambda>c. (c, ''understood'')) us @ map (\<lambda>c. (c, ''struggled'')) ss)"
  using assms by (simp add: extract_categories_def map_result_tagged)

lemma items_of_analysis_of:
  "items_of (analysis_of us ss) ''understood_well''
     = Inr (map (\<lambda>c. JObject [(''category'', JString c), (''evidence'', JString ''said so'')]) us)"
  "items_of (analysis_of us ss) ''struggled_with''
     = Inr (map (\<lambda>c. JObject [(''category'', JString c), (''evidence'', JString ''asked twice''),
         (''severity'', JString ''low'')]) ss)"
  by (simp_all add: items_of_def analysis_of_def)

theorem extract_categories_exact_witness:
  "items_of (analysis_of [''loops'', ''loops''] [''recursion'']) ''understood_well''
     = Inr [JObject [(''category'', JString ''loops''), (''evidence'', JString ''said so'')],
            JObject [(''category'', JString ''loops''), (''evidence'', JString ''said so'')]]
   \<and> map (\<lambda>item. subscript item ''category'')
        [JObject [(''category'', JString ''loops''), (''evidence'', JString ''said so'')],
         JObject [(''category'', JString ''loops''), (''evidence'', JString ''said so'')]]
     = map Inr [JString ''loops'', JString ''loops'']
   \<and> items_of (analysis_of [''loops'', ''loops''] [''recursion'']) ''struggled_with''
     = Inr [JObject [(''category'', JString ''recursion''), (''evidence'', JString ''asked twice''),
         (''severity'', JString ''low'')]]
   \<and> map (\<lambda>item. subscript item ''category'')
        [JObject [(''category'', JString ''recursion''), (''evidence'', JString ''asked twice''),
         (''severity'', JString ''low'')]]
     = map Inr [JString ''recursion'']
   \<and> extract_categories (analysis_of [''loops'', ''loops''] [''recursion''])
     = Inr [(JString ''loops'', ''understood''), (JString ''loops'', ''understood''),
            (JString ''recursion'', ''struggled'')]"
proof -
  have h1: "items_of (analysis_of [''loops'', ''loops''] [''recursion'']) ''understood_well''
     = Inr [JObject [(''category'', JString ''loops''), (''evidence'', JString ''said so'')],
            JObject [(''category'', JString ''loops''), (''evidence'', JString ''said so'')]]"
    by (simp add: items_of_analysis_of)
  have h2: "map (\<lambda>item. subscript item ''category'')
        [JObject [(''category'', JString ''loops''), (''evidence'', JString ''said so'')],
         JObject [(''category'', JString ''loops''), (''evidence'', JString ''said so'')]]
     = map Inr [JString ''loops'', JString ''loops'']"
    by simp
  have h3: "items_of (analysis_of [''loops'', ''loops''] [''recursion'']) ''struggled_with''
     = Inr [JObject [(''category'', JString ''recursion''), (''evidence'', JString ''asked twice''),
         (''severity'', JString ''low'')]]"
    by (simp add: items_of_analysis_of)
  have h4: "map (\<lambda>item. subscript item ''category'')
        [JObject [(''category'', JString ''recursion''), (''evidence'', JString ''asked twice''),
         (''severity'', JString ''low'')]]
     = map Inr [JString ''recursion'']"
    by simp
  from extract_categories_exact [OF h1 h2 h3 h4] h1 h2 h3 h4 show ?thesis by simp
qed

subsection \<open>\<^verbatim>\<open>_generate_statistics\<close>\<close>

lemma statistics_nonempty:
  "analyses \<noteq> [] \<Longrightarrow> generate_statistics analyses =
     and_then (count_categories ''struggled_with'' [] analyses) (\<lambda>struggle_counts.
     and_then (count_categories ''understood_well'' [] analyses) (\<lambda>understood_counts.
     and_then (section_lines ''_No significant struggles detected._'' (length analyses)
                 (top5 struggle_counts)) (\<lambda>struggle_lines.
     and_then (section_lines ''_No clear patterns of understanding detected._'' (length analyses)
                 (top5 understood_counts)) (\<lambda>understood_lines.
     Inr (join ''\<newline>''
            ([statistics_title (length analyses), [], struggles_header] @ struggle_lines
             @ [[], understood_header] @ understood_lines))))))"
  by (simp add: generate_statistics_def Let_def)

lemma top5_Nil [simp]: "top5 [] = []"
  by (simp add: top5_def)

lemma section_lines_Nil [simp]: "section_lines placeholder n [] = Inr [placeholder]"
  by (simp add: section_lines_def)

lemma map_result_length: "map_result f xs = Inr ys \<Longrightarrow> length ys = length xs"
  by (induction xs arbitrary: ys) (auto simp: and_then_Inr_iff)


lemma count_empty_analysis: "count_categories field [] [empty_analysis] = Inr []"
  by (simp add: empty_analysis_def items_of_def)


subsection \<open>The five most frequent categories\<close>

lemma ranked_sorted:
  "sorted_wrt (\<lambda>x y. snd y \<le> snd x) (rev (sort_key snd (rev (cs :: counts))))"
proof -
  have "sorted (map snd (sort_key snd (rev cs)))" by (rule sorted_sort_key)
  then have "sorted_wrt (\<lambda>x y. snd x \<le> snd y) (sort_key snd (rev cs))"
    by (simp add: sorted_map)
  then show ?thesis by (simp add: sorted_wrt_rev)
qed

lemma sorted_wrt_strict:
  "sorted_wrt (\<lambda>x y. f y \<le> f x) xs \<Longrightarrow> distinct (map f xs)
   \<Longrightarrow> sorted_wrt (\<lambda>x y. (f y :: nat) < f x) xs"
proof (induction xs)
  case Nil
  then show ?case by simp
next
  case (Cons a xs)
  have "f x < f a" if "x \<in> set xs" for x
  proof -
    from that Cons.prems have "f x \<le> f a" and "f a \<noteq> f x" by auto
    then show ?thesis by simp
  qed
  with Cons show ?case by simp
qed

lemma ranked_sorted_strict:
  assumes "distinct (map snd (cs :: counts))"
  shows "sorted_wrt (\<lambda>x y. snd y < snd x) (rev (sort_key snd (rev cs)))"
proof -
  let ?r = "rev (sort_key snd (rev cs))"
  have "mset (map snd ?r) = mset (map snd cs)" by simp
  with assms have d: "distinct (map snd ?r)"
    by (metis mset_eq_imp_distinct_iff)
  from ranked_sorted [of cs] d show ?thesis by (rule sorted_wrt_strict)
qed


lemma eight_struggles:
  "count_categories ''struggled_with'' [] [eight_categories]
   = Inr [(PyStr ''c1'', 1), (PyStr ''c2'', 2), (PyStr ''c3'', 3), (PyStr ''c4'', 4),
          (PyStr ''c5'', 5), (PyStr ''c6'', 6), (PyStr ''c7'', 7), (PyStr ''c8'', 8)]"
  by code_simp

lemma eight_understood: "count_categories ''understood_well'' [] [eight_categories] = Inr []"
  by code_simp

lemma eight_bullets:
  "map_result (bullet (length [eight_categories]))
     (top5 [(PyStr ''c1'', 1), (PyStr ''c2'', 2), (PyStr ''c3'', 3), (PyStr ''c4'', 4),
          (PyStr ''c5'', 5), (PyStr ''c6'', 6), (PyStr ''c7'', 7), (PyStr ''c8'', 8)])
   = Inr [''- **c8**: 8 students (800.0%)'', ''- **c7**: 7 students (700.0%)'',
          ''- **c6**: 6 students (600.0%)'', ''- **c5**: 5 students (500.0%)'',
          ''- **c4**: 4 students (400.0%)'']"
  by code_simp


subsection \<open>Floating point\<close>

lemma round_half_even_error: "\<bar>of_int (round_half_even x) - x\<bar> \<le> 1 / 2"
proof -
  have "of_int \<lfloor>x\<rfloor> \<le> x" and "x < of_int \<lfloor>x\<rfloor> + 1"
    by linarith+
  then show ?thesis
    by (auto simp: round_half_even_def Let_def)
qed

lemma round_half_even_nonneg: "0 \<le> x \<Longrightarrow> 0 \<le> round_half_even x"
  by (auto simp: round_half_even_def Let_def)

lemma ilog2_le:
  assumes "0 < q"
  shows "2 powi (ilog2 q) \<le> q"
proof -
  obtain a b where ab: "quotient_of q = (a, b)" by (cases "quotient_of q")
  then have b: "0 < b" and q: "q = of_int a / of_int b"
    by (simp_all add: quotient_of_denom_pos quotient_of_div)
  with assms have a: "0 < a"
    by (simp add: zero_less_divide_iff)
  let ?d = "bitlen a - bitlen b"
  have la: "(2::int) ^ nat (bitlen a - 1) \<le> a" and lb: "b < 2 ^ nat (bitlen b)"
    using bitlen_bounds [OF a] bitlen_bounds [OF b] by simp_all
  have pa: "1 \<le> bitlen a" and pb: "1 \<le> bitlen b"
    using a b by (auto simp: bitlen_alt_def)
  have "2 powi (?d - 1) \<le> q"
  proof -
    have "(2::rat) powi (?d - 1) = 2 powi (bitlen a - 1) / 2 powi (bitlen b)"
      by (simp add: power_int_diff)
    also have "\<dots> = 2 ^ nat (bitlen a - 1) / 2 ^ nat (bitlen b)"
      using pa pb by (simp add: power_int_def)
    also have "\<dots> \<le> of_int a / 2 ^ nat (bitlen b)"
    proof -
      have "(2::rat) ^ nat (bitlen a - 1) \<le> of_int a"
        using la by (metis of_int_le_iff of_int_numeral of_int_power)
      then show ?thesis by (simp add: divide_right_mono)
    qed
    also have "\<dots> \<le> of_int a / of_int b"
    proof -
      have "(of_int b :: rat) \<le> 2 ^ nat (bitlen b)"
        using lb by (metis less_imp_le of_int_le_iff of_int_numeral of_int_power)
      with a b show ?thesis by (simp add: frac_le)
    qed
    finally show ?thesis by (simp add: q)
  qed
  then show ?thesis
    by (simp add: ilog2_def ab Let_def)
qed

lemma round_double_nonneg: "0 \<le> q \<Longrightarrow> 0 \<le> round_double q"
  by (simp add: round_double_def Let_def round_half_even_nonneg)

lemma half_least_double:
  "0 < half_least_double" "half_least_double \<le> 1" "2 powi (- 1074) / 2 = half_least_double"
proof -
  show "0 < half_least_double"
    unfolding half_least_double_def by (rule zero_less_power_int) simp
  have "(2::rat) powi (- 1075) \<le> 2 powi 0"
    by (rule power_int_increasing) simp_all
  then show "half_least_double \<le> 1"
    unfolding half_least_double_def by (simp only: power_int_0_right)
  have "(2::rat) powi (- 1074 - 1) = 2 powi (- 1074) / 2 powi 1"
    by (rule power_int_diff) simp
  moreover have "(- 1074 - 1 :: int) = - 1075" by simp
  moreover have "(2::rat) powi 1 = 2" by simp
  ultimately show "2 powi (- 1074) / 2 = half_least_double"
    unfolding half_least_double_def by (simp only:)
qed

lemma round_double_error:
  assumes "0 < q"
  shows "\<bar>round_double q - q\<bar> \<le> q / 2 ^ 53 + half_least_double"
proof -
  define e where "e = max (ilog2 q - 52) (- 1074)"
  define p where "p = (2::rat) powi e"
  have p: "0 < p" by (simp add: p_def)
  have rd: "round_double q = of_int (round_half_even (q / p)) * p"
    using assms by (simp add: round_double_def Let_def e_def p_def)
  have "\<bar>of_int (round_half_even (q / p)) - q / p\<bar> \<le> 1 / 2"
    by (rule round_half_even_error)
  then have "\<bar>of_int (round_half_even (q / p)) - q / p\<bar> * p \<le> 1 / 2 * p"
    using p by (intro mult_right_mono) simp_all
  moreover have "\<bar>of_int (round_half_even (q / p)) - q / p\<bar> * p
      = \<bar>of_int (round_half_even (q / p)) * p - q\<bar>"
  proof -
    have "(of_int (round_half_even (q / p)) - q / p) * p
        = of_int (round_half_even (q / p)) * p - q"
      using p by (simp add: left_diff_distrib)
    moreover have "\<bar>of_int (round_half_even (q / p)) - q / p\<bar> * p
        = \<bar>(of_int (round_half_even (q / p)) - q / p) * p\<bar>"
      using p by (simp add: abs_mult)
    ultimately show ?thesis by simp
  qed
  ultimately have err: "\<bar>round_double q - q\<bar> \<le> p / 2"
    by (simp add: rd)
  have "p / 2 \<le> q / 2 ^ 53 + half_least_double"
  proof (cases "- 1074 \<le> ilog2 q - 52")
    case True
    then have "e = ilog2 q - 52" by (simp add: e_def)
    then have "p = 2 powi (ilog2 q) / 2 ^ 52"
      by (simp add: p_def power_int_diff)
    with ilog2_le [OF assms] have "p \<le> q / 2 ^ 52"
      by (simp add: divide_right_mono)
    then have "p / 2 \<le> q / 2 ^ 52 / 2" by simp
    also have "q / 2 ^ 52 / 2 = q / 2 ^ 53" by simp
    finally show ?thesis using half_least_double(1) by linarith
  next
    case False
    then have "e = - 1074" by (simp add: e_def)
    then have "p / 2 = half_least_double"
      unfolding p_def by (simp only: half_least_double(3))
    with assms show ?thesis by simp
  qed
  with err show ?thesis by linarith
qed

lemma round_double_error_nonneg:
  assumes "0 \<le> q"
  shows "\<bar>round_double q - q\<bar> \<le> q / 2 ^ 53 + half_least_double"
proof (cases "q = 0")
  case True
  then show ?thesis using half_least_double(1) by (simp add: round_double_def)
next
  case False
  with assms have "0 < q" by simp
  then show ?thesis by (rule round_double_error)
qed

lemma percentage_accuracy:
  assumes "0 < n" and "0 < c" and "512 * of_nat c < double_limit"
  shows "\<exists>t. bullet n (topic, c)
          = Inr (''- **'' @ py_str topic @ ''**: '' @ digits c @ '' students (''
                 @ digits (nat (t div 10)) @ ''.'' @ digits (nat (t mod 10)) @ ''%)'')
       \<and> 0 \<le> t
       \<and> \<bar>of_int t / 10 - 100 * of_nat c / of_nat n\<bar>
           \<le> 1 / 20 + (of_nat c / of_nat n) / 2 ^ 45 + 128 * half_least_double"
proof -
  define q :: rat where "q = of_nat c / of_nat n"
  define d where "d = round_double q"
  define p where "p = round_double (d * 100)"
  define t where "t = round_half_even (p * 10)"
  define h where "h = half_least_double"
  have h: "0 < h" "h \<le> 1" by (simp_all add: h_def half_least_double)
  define cr :: rat where "cr = of_nat c"
  have c1: "1 \<le> cr" using assms(2) by (simp add: cr_def)
  have lim: "512 * cr < double_limit" using assms(3) by (simp add: cr_def)
  have q0: "0 < q" using assms by (simp add: q_def)
  have "q \<le> of_nat c / 1"
    unfolding q_def using assms by (intro divide_left_mono) simp_all
  then have qc: "q \<le> cr" by (simp add: cr_def)
  have de: "\<bar>d - q\<bar> \<le> q / 2 ^ 53 + h"
    unfolding d_def h_def using q0 by (rule round_double_error)
  have d0: "0 \<le> d"
    unfolding d_def using q0 by (intro round_double_nonneg) simp
  have pe: "\<bar>p - d * 100\<bar> \<le> d * 100 / 2 ^ 53 + h"
    unfolding p_def h_def using d0 by (intro round_double_error_nonneg) simp
  have p0: "0 \<le> p"
    unfolding p_def using d0 by (intro round_double_nonneg) simp
  have te: "\<bar>of_int t - p * 10\<bar> \<le> 1 / 2"
    unfolding t_def by (rule round_half_even_error)
  have t0: "0 \<le> t"
    unfolding t_def using p0 by (intro round_half_even_nonneg) simp
  have dl: "d < double_limit"
    using de h qc c1 q0 lim by (simp add: abs_le_iff; linarith)
  have pl: "p < double_limit"
    using pe de h qc c1 q0 d0 lim by (simp add: abs_le_iff; linarith)
  have div: "int_true_div c n = Inr d"
    using assms(1) dl by (simp add: int_true_div_def Let_def d_def q_def)
  have mul: "float_mul d 100 = Finite p"
    using pl by (simp add: float_mul_def Let_def p_def)
  have fmt: "format_1f (Finite p) = digits (nat (t div 10)) @ ''.'' @ digits (nat (t mod 10))"
    by (simp add: format_1f_def Let_def t_def)
  have b: "bullet n (topic, c)
          = Inr (''- **'' @ py_str topic @ ''**: '' @ digits c @ '' students (''
                 @ digits (nat (t div 10)) @ ''.'' @ digits (nat (t mod 10)) @ ''%)'')"
    by (simp add: bullet_def div mul fmt)
  have "\<bar>of_int t / 10 - 100 * q\<bar> \<le> 1 / 20 + q / 2 ^ 45 + 128 * h"
    using te pe de h q0 d0 by (simp add: abs_le_iff; linarith)
  with b t0 show ?thesis
    unfolding q_def h_def by (simp only: times_divide_eq_right) blast
qed

subsection \<open>Counting\<close>

lemma count_items_append:
  "count_items cs (xs @ ys) = and_then (count_items cs xs) (\<lambda>cs'. count_items cs' ys)"
  by (induction xs arbitrary: cs) (auto simp: and_then_def split: sum.splits)

lemma count_categories_concat:
  "map_result (\<lambda>a. items_of a field) analyses = Inr itemss
   \<Longrightarrow> count_categories field cs analyses = count_items cs (concat itemss)"
proof (induction analyses arbitrary: cs itemss)
  case Nil
  then show ?case by simp
next
  case (Cons a as)
  from Cons.prems obtain items rest where
    i: "items_of a field = Inr items" and r: "map_result (\<lambda>a. items_of a field) as = Inr rest"
    and e: "itemss = items # rest"
    by (auto simp: and_then_Inr_iff)
  show ?case
  proof (cases "count_items cs items")
    case (Inl err)
    with i e show ?thesis by (simp add: count_items_append)
  next
    case (Inr cs')
    with i e Cons.IH [OF r, of cs'] show ?thesis by (simp add: count_items_append)
  qed
qed

lemma count_items_foldl:
  "map (\<lambda>item. subscript item ''category'') items = map (\<lambda>c. Inr (Atom c)) cats
   \<Longrightarrow> count_items cs items = Inr (foldl bump cs cats)"
proof (induction items arbitrary: cs cats)
  case Nil
  then show ?case by simp
next
  case (Cons item items)
  then obtain c cats' where "cats = c # cats'" by (cases cats) auto
  with Cons show ?case by (simp add: increment_def)
qed

lemma map_of_bump:
  "map_of (map (\<lambda>(c, n). (key_value c, n)) (bump cs k)) k'
     = (if k' = key_value k
        then Some (case map_of (map (\<lambda>(c, n). (key_value c, n)) cs) k' of
                     None \<Rightarrow> 1 | Some n \<Rightarrow> n + 1)
        else map_of (map (\<lambda>(c, n). (key_value c, n)) cs) k')"
  by (induction cs) auto

lemma keys_bump:
  "map (\<lambda>(c, n). key_value c) (bump cs k)
     = (if key_value k \<in> set (map (\<lambda>(c, n). key_value c) cs)
        then map (\<lambda>(c, n). key_value c) cs
        else map (\<lambda>(c, n). key_value c) cs @ [key_value k])"
  by (induction cs) auto

lemma distinct_bump:
  "distinct (map (\<lambda>(c, n). key_value c) cs) \<Longrightarrow> distinct (map (\<lambda>(c, n). key_value c) (bump cs k))"
  unfolding keys_bump by simp

lemma distinct_foldl_bump:
  "distinct (map (\<lambda>(c, n). key_value c) cs)
   \<Longrightarrow> distinct (map (\<lambda>(c, n). key_value c) (foldl bump cs cats))"
  by (induction cats arbitrary: cs) (simp_all add: distinct_bump)

lemma map_of_foldl_bump:
  "map_of (map (\<lambda>(c, n). (key_value c, n)) (foldl bump cs cats)) k
     = (if k \<in> set (map key_value cats)
        then Some ((case map_of (map (\<lambda>(c, n). (key_value c, n)) cs) k of
                      None \<Rightarrow> 0 | Some n \<Rightarrow> n)
                   + count_list (map key_value cats) k)
        else map_of (map (\<lambda>(c, n). (key_value c, n)) cs) k)"
proof (induction cats arbitrary: cs)
  case Nil
  then show ?case by simp
next
  case (Cons c cats)
  show ?case
    unfolding foldl_Cons Cons.IH
    by (auto simp: map_of_bump split: option.splits)
qed

lemma loops_lines:
  "section_lines ''_No significant struggles detected._'' 3
     (top5 [(PyStr ''loops'', 2), (PyStr ''recursion'', 1)])
   = Inr [''- **loops**: 2 students (66.7%)'', ''- **recursion**: 1 students (33.3%)'']"
  by code_simp


lemma loops_understood:
  "count_categories ''understood_well'' []
     [analysis_of [] [''loops'', ''loops''], analysis_of [] [''recursion''], empty_analysis] = Inr []"
  by (simp add: items_of_analysis_of empty_analysis_def items_of_def [of "JObject []"])


subsection \<open>Code fences\<close>

lemma replace_Nil [simp]: "replace old new [] = []"
  by (subst replace.simps) simp

lemma replace_skip:
  assumes "hd old \<notin> set xs" and "old \<noteq> []"
  shows "replace old new (xs @ ys) = xs @ replace old new ys"
  using assms
proof (induction xs)
  case Nil
  then show ?case by simp
next
  case (Cons x xs)
  from Cons.prems have "\<not> prefix old (x # xs @ ys)"
    by (cases old) auto
  with Cons show ?case
    by (subst replace.simps) simp
qed

lemma replace_free:
  assumes "hd old \<notin> set xs" and "old \<noteq> []"
  shows "replace old new xs = xs"
  using replace_skip [OF assms, of new "[]"] by simp

lemma replace_hit:
  assumes "old \<noteq> []"
  shows "replace old new (old @ ys) = new @ replace old new ys"
  using assms by (subst replace.simps) simp

lemma replace_json_at_fence:
  assumes "\<not> prefix ''json'' ys" and "ys = [] \<or> hd ys \<noteq> CHR 0x60"
  shows "replace ''```json'' [] (''```'' @ ys) = ''```'' @ replace ''```json'' [] ys"
proof -
  have 1: "replace ''```json'' [] (''```'' @ ys) = CHR 0x60 # replace ''```json'' [] (''``'' @ ys)"
    using assms(1) by (subst replace.simps) simp
  have 2: "replace ''```json'' [] (''``'' @ ys) = CHR 0x60 # replace ''```json'' [] (''`'' @ ys)"
    using assms(2) by (subst replace.simps) (cases ys; auto)
  have 3: "replace ''```json'' [] (''`'' @ ys) = CHR 0x60 # replace ''```json'' [] ys"
    using assms(2) by (subst replace.simps) (cases ys; auto)
  show ?thesis unfolding 1 2 3 by simp
qed

lemma find_blank:
  assumes "c \<in> blank"
  shows "find (\<lambda>w. w \<noteq> [] \<and> prefix w (c # s)) whitespace = Some [c]"
    and "find (\<lambda>w. w \<noteq> [] \<and> prefix w (c # s)) (map rev whitespace) = Some [c]"
proof -
  from assms consider "c = CHR '' ''" | "c = CHR ''\<newline>''" | "c = CHR 0x0D" | "c = CHR 0x09"
    by (auto simp: blank_def)
  then show "find (\<lambda>w. w \<noteq> [] \<and> prefix w (c # s)) whitespace = Some [c]"
    by cases (simp_all add: whitespace_def)
  from assms consider "c = CHR '' ''" | "c = CHR ''\<newline>''" | "c = CHR 0x0D" | "c = CHR 0x09"
    by (auto simp: blank_def)
  then show "find (\<lambda>w. w \<noteq> [] \<and> prefix w (c # s)) (map rev whitespace) = Some [c]"
    by cases (simp_all add: whitespace_def)
qed

lemma drop_leading_blank:
  assumes "set ws \<subseteq> blank"
  shows "drop_leading whitespace (ws @ s) = drop_leading whitespace s"
    and "drop_leading (map rev whitespace) (ws @ s) = drop_leading (map rev whitespace) s"
proof -
  show "drop_leading whitespace (ws @ s) = drop_leading whitespace s"
    using assms
  proof (induction ws)
    case Nil
    show ?case by simp
  next
    case (Cons c ws)
    then have c: "c \<in> blank" and ws: "set ws \<subseteq> blank" by auto
    have "drop_leading whitespace ((c # ws) @ s) = drop_leading whitespace (ws @ s)"
      by (subst drop_leading.simps) (simp add: find_blank(1) [OF c])
    with Cons.IH [OF ws] show ?case by simp
  qed
  show "drop_leading (map rev whitespace) (ws @ s) = drop_leading (map rev whitespace) s"
    using assms
  proof (induction ws)
    case Nil
    show ?case by simp
  next
    case (Cons c ws)
    then have c: "c \<in> blank" and ws: "set ws \<subseteq> blank" by auto
    have "drop_leading (map rev whitespace) ((c # ws) @ s)
        = drop_leading (map rev whitespace) (ws @ s)"
      by (subst drop_leading.simps) (simp add: find_blank(2) [OF c])
    with Cons.IH [OF ws] show ?case by simp
  qed
qed

lemma find_brace:
  "find (\<lambda>w. w \<noteq> [] \<and> prefix w (CHR ''{'' # s)) whitespace = None"
  "find (\<lambda>w. w \<noteq> [] \<and> prefix w (CHR ''}'' # s)) (map rev whitespace) = None"
  by (simp_all add: whitespace_def)

lemma drop_leading_brace:
  "drop_leading whitespace (CHR ''{'' # s) = CHR ''{'' # s"
  "drop_leading (map rev whitespace) (CHR ''}'' # s) = CHR ''}'' # s"
proof -
  show "drop_leading whitespace (CHR ''{'' # s) = CHR ''{'' # s"
    by (subst drop_leading.simps) (simp add: find_brace)
  show "drop_leading (map rev whitespace) (CHR ''}'' # s) = CHR ''}'' # s"
    by (subst drop_leading.simps) (simp add: find_brace)
qed

lemma strip_object:
  assumes "set ws1 \<subseteq> blank" and "set ws2 \<subseteq> blank"
  shows "strip (ws1 @ ''{'' @ inner @ ''}'' @ ws2) = ''{'' @ inner @ ''}''"
proof -
  have l: "lstrip (ws1 @ ''{'' @ inner @ ''}'' @ ws2) = ''{'' @ inner @ ''}'' @ ws2"
    unfolding lstrip_def drop_leading_blank(1) [OF assms(1)] by (simp add: drop_leading_brace)
  have r: "rev (''{'' @ inner @ ''}'' @ ws2) = rev ws2 @ CHR ''}'' # rev (''{'' @ inner)"
    by simp
  have "set (rev ws2) \<subseteq> blank" using assms(2) by simp
  then have "drop_leading (map rev whitespace) (rev (''{'' @ inner @ ''}'' @ ws2))
      = CHR ''}'' # rev (''{'' @ inner)"
    unfolding r by (simp only: drop_leading_blank(2) drop_leading_brace)
  then have "rstrip (''{'' @ inner @ ''}'' @ ws2) = ''{'' @ inner @ ''}''"
    by (simp add: rstrip_def)
  with l show ?thesis by (simp add: strip_def)
qed

lemma blank_no_backtick: "set ws \<subseteq> blank \<Longrightarrow> CHR 0x60 \<notin> set ws"
  by (auto simp: blank_def)

lemma clean_fenced_json:
  assumes "set lead \<subseteq> blank" "set a \<subseteq> blank" "set b \<subseteq> blank" "set trail \<subseteq> blank"
    and "CHR 0x60 \<notin> set inner"
  shows "clean_response (lead @ ''```json'' @ a @ ''{'' @ inner @ ''}'' @ b @ ''```'' @ trail)
           = ''{'' @ inner @ ''}''"
proof -
  let ?x = "a @ ''{'' @ inner @ ''}'' @ b"
  have nl: "CHR 0x60 \<notin> set lead" and nt: "CHR 0x60 \<notin> set trail"
    and nx: "CHR 0x60 \<notin> set ?x"
    using assms by (auto dest: blank_no_backtick)
  have pt: "\<not> prefix ''json'' trail" and ht: "trail = [] \<or> hd trail \<noteq> CHR 0x60"
    using assms(4) by (cases trail; auto simp: blank_def)+
  have "replace ''```json'' [] (lead @ ''```json'' @ ?x @ ''```'' @ trail)
      = lead @ replace ''```json'' [] (''```json'' @ ?x @ ''```'' @ trail)"
    using nl by (intro replace_skip) simp_all
  also have "replace ''```json'' [] (''```json'' @ ?x @ ''```'' @ trail)
      = replace ''```json'' [] (?x @ ''```'' @ trail)"
    by (subst replace_hit) simp_all
  also have "\<dots> = ?x @ replace ''```json'' [] (''```'' @ trail)"
    using nx by (intro replace_skip) simp_all
  also have "replace ''```json'' [] (''```'' @ trail) = ''```'' @ replace ''```json'' [] trail"
    using pt ht by (rule replace_json_at_fence)
  also have "replace ''```json'' [] trail = trail"
    using nt by (intro replace_free) simp_all
  finally have 1: "replace ''```json'' [] (lead @ ''```json'' @ ?x @ ''```'' @ trail)
      = (lead @ ?x) @ ''```'' @ trail"
    by simp
  have "replace ''```'' [] ((lead @ ?x) @ ''```'' @ trail)
      = (lead @ ?x) @ replace ''```'' [] (''```'' @ trail)"
    using nl nx by (intro replace_skip) auto
  also have "replace ''```'' [] (''```'' @ trail) = replace ''```'' [] trail"
    by (subst replace_hit) simp_all
  also have "replace ''```'' [] trail = trail"
    using nt by (intro replace_free) simp_all
  finally have 2: "replace ''```'' [] ((lead @ ?x) @ ''```'' @ trail)
      = (lead @ a) @ ''{'' @ inner @ ''}'' @ (b @ trail)"
    by simp
  have "clean_response (lead @ ''```json'' @ ?x @ ''```'' @ trail)
      = strip ((lead @ a) @ ''{'' @ inner @ ''}'' @ (b @ trail))"
    unfolding clean_response_def 1 2 ..
  also have "\<dots> = ''{'' @ inner @ ''}''"
    using assms by (intro strip_object) auto
  finally show ?thesis by simp
qed

lemma clean_fenced_plain:
  assumes "set lead \<subseteq> blank" "set a \<subseteq> blank" "set b \<subseteq> blank" "set trail \<subseteq> blank"
    and "CHR 0x60 \<notin> set inner"
  shows "clean_response (lead @ ''```'' @ a @ ''{'' @ inner @ ''}'' @ b @ ''```'' @ trail)
           = ''{'' @ inner @ ''}''"
proof -
  let ?x = "a @ ''{'' @ inner @ ''}'' @ b"
  have nl: "CHR 0x60 \<notin> set lead" and nt: "CHR 0x60 \<notin> set trail"
    and nx: "CHR 0x60 \<notin> set ?x"
    using assms by (auto dest: blank_no_backtick)
  have pt: "\<not> prefix ''json'' trail" and ht: "trail = [] \<or> hd trail \<noteq> CHR 0x60"
    using assms(4) by (cases trail; auto simp: blank_def)+
  have px: "\<not> prefix ''json'' (?x @ ''```'' @ trail)"
    and hx: "?x @ ''```'' @ trail = [] \<or> hd (?x @ ''```'' @ trail) \<noteq> CHR 0x60"
    using assms(2) by (cases a; auto simp: blank_def)+
  have "replace ''```json'' [] (lead @ ''```'' @ ?x @ ''```'' @ trail)
      = lead @ replace ''```json'' [] (''```'' @ ?x @ ''```'' @ trail)"
    using nl by (intro replace_skip) simp_all
  also have "replace ''```json'' [] (''```'' @ ?x @ ''```'' @ trail)
      = ''```'' @ replace ''```json'' [] (?x @ ''```'' @ trail)"
    using px hx by (rule replace_json_at_fence)
  also have "replace ''```json'' [] (?x @ ''```'' @ trail)
      = ?x @ replace ''```json'' [] (''```'' @ trail)"
    using nx by (intro replace_skip) simp_all
  also have "replace ''```json'' [] (''```'' @ trail) = ''```'' @ replace ''```json'' [] trail"
    using pt ht by (rule replace_json_at_fence)
  also have "replace ''```json'' [] trail = trail"
    using nt by (intro replace_free) simp_all
  finally have 1: "replace ''```json'' [] (lead @ ''```'' @ ?x @ ''```'' @ trail)
      = lead @ ''```'' @ ?x @ ''```'' @ trail"
    by simp
  have "replace ''```'' [] (lead @ ''```'' @ ?x @ ''```'' @ trail)
      = lead @ replace ''```'' [] (''```'' @ ?x @ ''```'' @ trail)"
    using nl by (intro replace_skip) simp_all
  also have "replace ''```'' [] (''```'' @ ?x @ ''```'' @ trail)
      = replace ''```'' [] (?x @ ''```'' @ trail)"
    by (subst replace_hit) simp_all
  also have "\<dots> = ?x @ replace ''```'' [] (''```'' @ trail)"
    using nx by (intro replace_skip) simp_all
  also have "replace ''```'' [] (''```'' @ trail) = replace ''```'' [] trail"
    by (subst replace_hit) simp_all
  also have "replace ''```'' [] trail = trail"
    using nt by (intro replace_free) simp_all
  finally have 2: "replace ''```'' [] (lead @ ''```'' @ ?x @ ''```'' @ trail)
      = (lead @ a) @ ''{'' @ inner @ ''}'' @ (b @ trail)"
    by simp
  have "clean_response (lead @ ''```'' @ ?x @ ''```'' @ trail)
      = strip ((lead @ a) @ ''{'' @ inner @ ''}'' @ (b @ trail))"
    unfolding clean_response_def 1 2 ..
  also have "\<dots> = ''{'' @ inner @ ''}''"
    using assms by (intro strip_object) auto
  finally show ?thesis by simp
qed



subsection \<open>Running the analysis again\<close>



end
